theory Spec2Isabelle
  imports Complex_Main "HOL-Library.Sublist"
begin

section \<open>Strings, numbers and parsed JSON\<close>

text \<open>
  JavaScript's \<open>String.prototype.includes\<close>, \<open>endsWith\<close>, \<open>split\<close> and
  \<open>Array.prototype.join\<close>, on strings as character lists.
\<close>

definition str_includes :: "string \<Rightarrow> string \<Rightarrow> bool" where
  "str_includes s t = sublist t s"

definition endsWith :: "string \<Rightarrow> string \<Rightarrow> bool" where
  "endsWith s t = suffix t s"

fun split_on :: "char \<Rightarrow> string \<Rightarrow> string list" where
  "split_on c [] = [ [] ]"
| "split_on c (x # xs) =
     (if x = c then [] # split_on c xs
      else (case split_on c xs of
              [] \<Rightarrow> [ [x] ]
            | w # ws \<Rightarrow> (x # w) # ws))"

fun join_with :: "string \<Rightarrow> string list \<Rightarrow> string" where
  "join_with sep [] = []"
| "join_with sep [w] = w"
| "join_with sep (w # v # ws) = w @ sep @ join_with sep (v # ws)"

text \<open>
  A JavaScript number as \<open>JSON.parse\<close> can produce it: a finite IEEE double, given
  by the real number it denotes, or an infinity (a literal beyond the range of doubles).
  Negative zero is identified with zero: truthiness, addition and serialisation do not
  tell them apart.
\<close>

datatype jnum = Fin real | PInf | NInf

text \<open>
  Rounding a real number to the nearest double, ties to the even significand: the
  number is scaled by the unit in the last place of its binade (53 significant bits,
  smallest exponent \<open>-1074\<close>) and rounded to the nearest integer.
\<close>

definition round_half_even :: "real \<Rightarrow> int" where
  "round_half_even q =
     (let f = \<lfloor>q\<rfloor>; d = q - of_int f
      in if d < 1 / 2 then f
         else if 1 / 2 < d then f + 1
         else if even f then f else f + 1)"

fun bit_length :: "nat \<Rightarrow> nat" where
  "bit_length n = (if n = 0 then 0 else Suc (bit_length (n div 2)))"

text \<open>The exponent \<open>e\<close> with \<open>2^e \<le> a < 2^(e+1)\<close>, for a positive \<open>a\<close>.\<close>

definition binade :: "real \<Rightarrow> int" where
  "binade a =
     (if 1 \<le> a then int (bit_length (nat \<lfloor>a\<rfloor>)) - 1
      else - int (bit_length (nat (\<lceil>1 / a\<rceil> - 1))))"

definition pow2 :: "int \<Rightarrow> real" where
  "pow2 e = (if 0 \<le> e then 2 ^ nat e else 1 / 2 ^ nat (- e))"

definition round_double :: "real \<Rightarrow> real" where
  "round_double x =
     (if x = 0 then 0
      else (let u = pow2 (max (binade (abs x) - 52) (- 1074))
            in of_int (round_half_even (x / u)) * u))"

text \<open>The double a real result becomes: a rounded magnitude of \<open>2^1024\<close> or more overflows.\<close>

definition to_number :: "real \<Rightarrow> jnum" where
  "to_number r =
     (let d = round_double r
      in if 2 ^ 1024 \<le> d then PInf
         else if d \<le> - (2 ^ 1024) then NInf
         else Fin d)"

text \<open>\<open>x + 1\<close> on numbers.\<close>

definition add_one :: "jnum \<Rightarrow> jnum" where
  "add_one x = (case x of Fin q \<Rightarrow> to_number (q + 1) | PInf \<Rightarrow> PInf | NInf \<Rightarrow> NInf)"

text \<open>
  A value produced by \<open>JSON.parse\<close>. \<open>JObj\<close> lists the members of the parsed
  object in the order the object enumerates them, with distinct keys. \<open>JInt n\<close> is
  the number with the integer value \<open>n\<close>.
\<close>

datatype json =
    JNull
  | JBool bool
  | JNum jnum
  | JStr string
  | JArr "json list"
  | JObj "(string \<times> json) list"

abbreviation JInt :: "int \<Rightarrow> json" where
  "JInt n \<equiv> JNum (Fin (of_int n))"

text \<open>
  Reading a member \<open>v.k\<close> of a value that is not \<open>null\<close>: \<open>None\<close> is
  \<open>undefined\<close>. Primitives and arrays have none of the members the code asks for
  (errors, actions, message, stack, location, file, line, column, apiName, method,
  lastNumber). Reading a member of \<open>null\<close> throws; every caller tests for it first.
\<close>

definition member :: "json \<Rightarrow> string \<Rightarrow> json option" where
  "member v k = (case v of JObj kvs \<Rightarrow> map_of kvs k | _ \<Rightarrow> None)"

fun truthy :: "json \<Rightarrow> bool" where
  "truthy JNull = False"
| "truthy (JBool b) = b"
| "truthy (JNum x) = (x \<noteq> Fin 0)"
| "truthy (JStr s) = (s \<noteq> [])"
| "truthy (JArr xs) = True"
| "truthy (JObj kvs) = True"

text \<open>\<open>v || d\<close> for a possibly undefined \<open>v\<close>.\<close>

definition js_or :: "json option \<Rightarrow> json \<Rightarrow> json" where
  "js_or v d = (case v of None \<Rightarrow> d | Some x \<Rightarrow> if truthy x then x else d)"

text \<open>\<open>v?.k\<close> for a possibly undefined \<open>v\<close>.\<close>

definition opt_member :: "json option \<Rightarrow> string \<Rightarrow> json option" where
  "opt_member v k =
     (case v of None \<Rightarrow> None | Some JNull \<Rightarrow> None | Some x \<Rightarrow> member x k)"

text \<open>
  What \<open>for (const x of v)\<close> runs through: the elements of an array, the characters
  of a string; any other value is not iterable and the loop throws (\<open>None\<close>).
\<close>

definition iterate :: "json \<Rightarrow> json list option" where
  "iterate v =
     (case v of
        JArr xs \<Rightarrow> Some xs
      | JStr s \<Rightarrow> Some (map (\<lambda>c. JStr [c]) s)
      | _ \<Rightarrow> None)"

text \<open>
  \<open>String(v)\<close>, as string concatenation applies it: an array joins its elements with
  commas, \<open>null\<close> elements as the empty string; an object is \<open>[object Object]\<close>.
  The decimal form of a number is the engine's \<open>Number.prototype.toString\<close>, taken
  as the function \<open>str\<close>.
\<close>

fun js_toString :: "(jnum \<Rightarrow> string) \<Rightarrow> json \<Rightarrow> string" where
  "js_toString str JNull = ''null''"
| "js_toString str (JBool b) = (if b then ''true'' else ''false'')"
| "js_toString str (JNum x) = str x"
| "js_toString str (JStr s) = s"
| "js_toString str (JArr xs) =
     join_with '','' (map (\<lambda>x. if x = JNull then [] else js_toString str x) xs)"
| "js_toString str (JObj kvs) = ''[object Object]''"

text \<open>
  \<open>v + 1\<close>: addition on doubles for a number, with \<open>true\<close>, \<open>false\<close> and
  \<open>null\<close> counting as 1, 0 and 0; string concatenation for every other value.
\<close>

definition js_plus_one :: "(jnum \<Rightarrow> string) \<Rightarrow> json \<Rightarrow> json" where
  "js_plus_one str v =
     (case v of
        JNum x \<Rightarrow> JNum (add_one x)
      | JBool b \<Rightarrow> JNum (add_one (Fin (if b then 1 else 0)))
      | JNull \<Rightarrow> JNum (add_one (Fin 0))
      | _ \<Rightarrow> JStr (js_toString str v @ ''1''))"

text \<open>
  What \<open>JSON.parse\<close> reads back from the text \<open>JSON.stringify\<close> writes for a
  value: the value itself, with \<open>null\<close> in the place of every infinity.
\<close>

fun reread :: "json \<Rightarrow> json" where
  "reread JNull = JNull"
| "reread (JBool b) = JBool b"
| "reread (JNum x) = (case x of Fin q \<Rightarrow> JNum (Fin q) | PInf \<Rightarrow> JNull | NInf \<Rightarrow> JNull)"
| "reread (JStr s) = JStr s"
| "reread (JArr xs) = JArr (map reread xs)"
| "reread (JObj kvs) = JObj (map (\<lambda>kv. (fst kv, reread (snd kv))) kvs)"

text \<open>\<open>obj.k = v\<close> on the members of an object: an existing key keeps its place.\<close>

fun set_member :: "(string \<times> json) list \<Rightarrow> string \<Rightarrow> json \<Rightarrow> (string \<times> json) list" where
  "set_member [] k v = [(k, v)]"
| "set_member ((k', v') # kvs) k v =
     (if k' = k then (k, v) # kvs else (k', v') # set_member kvs k v)"

section \<open>Trace processor\<close>

subsection \<open>Data\<close>

datatype TestStatus = Passed | Failed | Skipped | TimedOut | Interrupted

datatype Outcome = Pass | Fail | Skip

datatype Purpose = Development | Debugging | Regression | Validation | Exploration | CiCd | Manual

record TestExecutionIntent =
  purpose :: Purpose
  description :: "string option"
  expectFailures :: bool
  targetTests :: "string list option"
  goals :: "string list"
  intent_context :: "string option"

text \<open>
  \<open>Screenshot\<close>, \<open>Video\<close>, \<open>PlaywrightError\<close> and \<open>TestStep\<close> of the CLI types.
  Random identifiers (\<open>randomUUID\<close>), the action guessed from a screenshot's name and
  the floating-point duration of a step are left out: none of them can throw and
  nothing below reads them. The members of an error come from untyped trace data, so
  they are JSON values.
\<close>

record Screenshot =
  sc_timestamp :: int
  sc_filePath :: string
  sc_width :: nat
  sc_height :: nat

record Video =
  vd_filePath :: string
  vd_duration :: nat
  vd_size :: nat

record PlaywrightError =
  message :: json
  stack :: json
  loc_file :: json
  loc_line :: json
  loc_column :: json

record TestStep =
  title :: json

record PlaywrightTestResult =
  testTitle :: string
  status :: TestStatus
  duration :: int
  screenshots :: "Screenshot list"
  videos :: "Video list"
  errors :: "PlaywrightError list"
  steps :: "TestStep list"
  traceFile :: "string option"

text \<open>The element of \<open>enhancedResults\<close>, which becomes \<open>report.results\<close>.\<close>

record EnhancedResult =
  testName :: string
  r_status :: TestStatus
  r_duration :: int
  r_error :: "json option"
  r_screenshots :: "string list"
  r_traceFile :: "string option"
  actualOutcome :: Outcome
  expectedOutcome :: Outcome
  outcomeMatch :: bool

record TestSummary =
  total :: nat
  passed :: nat
  failed :: nat
  skipped :: nat
  expectedFails :: nat
  unexpectedFails :: nat
  expectedPasses :: nat
  unexpectedPasses :: nat

text \<open>
  \<open>report.execution\<close>: the run's random id, its start and end instants, the insights
  and the git metadata are left out. A \<open>Date\<close> is an instant in milliseconds.
\<close>

type_synonym date = int

record TestExecution =
  reportNumber :: json
  uniqueId :: string
  developer :: string
  timestamp :: date
  branch :: "string option"
  environment :: string
  exec_duration :: int
  intent :: TestExecutionIntent

record ProcessedTestReport =
  execution :: TestExecution
  results :: "EnhancedResult list"
  summary :: TestSummary

subsection \<open>The file system the processor reads\<close>

text \<open>
  An entry of a trace archive: its name and what
  \<open>JSON.parse(entry.getData().toString('utf8'))\<close> gives, \<open>None\<close> when that throws.
\<close>

record ZipEntry =
  entryName :: string
  content :: "json option"

record Stats =
  isDirectory :: bool
  mtimeMs :: int
  st_size :: nat

text \<open>
  The calls the processor makes, as functions of their arguments:
  \<open>globby(pattern, {cwd})\<close>, \<open>new AdmZip(path).getEntries()\<close>, \<open>existsSync\<close>,
  \<open>readdirSync\<close> and \<open>statSync\<close>, \<open>None\<close> where the call throws; and Node's
  \<open>path.join\<close> and \<open>path.basename\<close>, which normalise in a way that depends on
  the platform.
\<close>

record FileSystem =
  globby :: "string \<Rightarrow> string \<Rightarrow> string list"
  zipEntries :: "string \<Rightarrow> ZipEntry list option"
  existsSync :: "string \<Rightarrow> bool"
  readdirSync :: "string \<Rightarrow> string list option"
  statSync :: "string \<Rightarrow> Stats option"
  path_join :: "string \<Rightarrow> string \<Rightarrow> string"
  path_basename :: "string \<Rightarrow> string"

subsection \<open>Reconciliation and summary\<close>

fun mapStatusToOutcome :: "TestStatus \<Rightarrow> Outcome" where
  "mapStatusToOutcome Passed = Pass"
| "mapStatusToOutcome Failed = Fail"
| "mapStatusToOutcome TimedOut = Fail"
| "mapStatusToOutcome Interrupted = Fail"
| "mapStatusToOutcome Skipped = Skip"

definition determineExpectedOutcome :: "PlaywrightTestResult \<Rightarrow> TestExecutionIntent \<Rightarrow> Outcome" where
  "determineExpectedOutcome result i =
     (if expectFailures i then
        (case targetTests i of
           None \<Rightarrow> Pass
         | Some targets \<Rightarrow>
             if list_ex (\<lambda>target. str_includes (testTitle result) target) targets
             then Fail else Pass)
      else Pass)"

text \<open>The function mapped over \<open>results\<close> to build \<open>enhancedResults\<close>.\<close>

definition enhance :: "TestExecutionIntent \<Rightarrow> PlaywrightTestResult \<Rightarrow> EnhancedResult" where
  "enhance i result =
     (let actual = mapStatusToOutcome (status result);
          expected = determineExpectedOutcome result i
      in \<lparr> testName = testTitle result,
           r_status = (if status result = TimedOut \<or> status result = Interrupted
                       then Failed else status result),
           r_duration = duration result,
           r_error = (case errors result of [] \<Rightarrow> None | e # _ \<Rightarrow> Some (message e)),
           r_screenshots = map sc_filePath (screenshots result),
           r_traceFile = traceFile result,
           actualOutcome = actual,
           expectedOutcome = expected,
           outcomeMatch = (actual = expected) \<rparr>)"

definition calculateEnhancedSummary :: "EnhancedResult list \<Rightarrow> TestSummary" where
  "calculateEnhancedSummary rs =
     \<lparr> total = length rs,
       passed = length (filter (\<lambda>r. r_status r = Passed) rs),
       failed = length (filter (\<lambda>r. r_status r = Failed) rs),
       skipped = length (filter (\<lambda>r. r_status r = Skipped) rs),
       expectedFails = length (filter (\<lambda>r. expectedOutcome r = Fail \<and> actualOutcome r = Fail) rs),
       unexpectedFails = length (filter (\<lambda>r. expectedOutcome r = Pass \<and> actualOutcome r = Fail) rs),
       expectedPasses = length (filter (\<lambda>r. expectedOutcome r = Pass \<and> actualOutcome r = Pass) rs),
       unexpectedPasses = length (filter (\<lambda>r. expectedOutcome r = Fail \<and> actualOutcome r = Pass) rs) \<rparr>"

subsection \<open>Scanning a test directory\<close>

fun first_match :: "FileSystem \<Rightarrow> string \<Rightarrow> string list \<Rightarrow> string option" where
  "first_match fs testDir [] = None"
| "first_match fs testDir (pattern # patterns) =
     (case globby fs pattern testDir of
        [] \<Rightarrow> first_match fs testDir patterns
      | file # _ \<Rightarrow> Some (path_join fs testDir file))"

definition findTraceFile :: "FileSystem \<Rightarrow> string \<Rightarrow> string option" where
  "findTraceFile fs testDir = first_match fs testDir [''trace.zip'', ''*.trace'', ''*.zip'']"

text \<open>
  The loops of \<open>collectScreenshots\<close> and \<open>collectVideos\<close>: one record per matched
  file, in pattern order; a \<open>statSync\<close> that throws ends the whole call (\<open>None\<close>).
\<close>

fun stat_files :: "FileSystem \<Rightarrow> string \<Rightarrow> string list \<Rightarrow> (string \<times> Stats) list option" where
  "stat_files fs testDir [] = Some []"
| "stat_files fs testDir (file # files) =
     (case statSync fs (path_join fs testDir file) of
        None \<Rightarrow> None
      | Some st \<Rightarrow>
          (case stat_files fs testDir files of
             None \<Rightarrow> None
           | Some rest \<Rightarrow> Some ((path_join fs testDir file, st) # rest)))"

definition matched_files :: "FileSystem \<Rightarrow> string \<Rightarrow> string list \<Rightarrow> string list" where
  "matched_files fs testDir patterns = concat (map (\<lambda>pattern. globby fs pattern testDir) patterns)"

definition collectScreenshots :: "FileSystem \<Rightarrow> string \<Rightarrow> Screenshot list option" where
  "collectScreenshots fs testDir =
     map_option
       (map (\<lambda>(filePath, st). \<lparr> sc_timestamp = mtimeMs st, sc_filePath = filePath,
                                sc_width = 0, sc_height = 0 \<rparr>))
       (stat_files fs testDir (matched_files fs testDir [''*.png'', ''*.jpg'', ''*.jpeg'']))"

definition collectVideos :: "FileSystem \<Rightarrow> string \<Rightarrow> Video list option" where
  "collectVideos fs testDir =
     map_option
       (map (\<lambda>(filePath, st). \<lparr> vd_filePath = filePath, vd_duration = 0, vd_size = st_size st \<rparr>))
       (stat_files fs testDir (matched_files fs testDir [''*.webm'', ''*.mp4'']))"

definition determineTestStatus :: "FileSystem \<Rightarrow> string \<Rightarrow> TestStatus option" where
  "determineTestStatus fs testDir =
     (case findTraceFile fs testDir of
        Some found \<Rightarrow> Some Failed
      | None \<Rightarrow>
          (case collectScreenshots fs testDir of
             None \<Rightarrow> None
           | Some shots \<Rightarrow>
               if list_ex (\<lambda>s. str_includes (sc_filePath s) ''error''
                              \<or> str_includes (sc_filePath s) ''failure'') shots
               then Some Failed
               else Some Passed))"

subsection \<open>Reading a trace archive\<close>

text \<open>
  The state of an array a loop pushes to, when the loop ends normally and when an
  exception leaves it: the pushes made before the exception stay in the array.
\<close>

datatype 'a attempt = Completed 'a | Thrown 'a

definition settle :: "'a attempt \<Rightarrow> 'a" where
  "settle a = (case a of Completed acc \<Rightarrow> acc | Thrown acc \<Rightarrow> acc)"

definition is_structured :: "ZipEntry \<Rightarrow> bool" where
  "is_structured entry =
     (entryName entry = ''trace.trace'' \<or> endsWith (entryName entry) ''.json'')"

definition playwrightError_of :: "json \<Rightarrow> PlaywrightError" where
  "playwrightError_of e =
     \<lparr> message = js_or (member e ''message'') (JStr ''Unknown error''),
       stack = js_or (member e ''stack'') (JStr ''''),
       loc_file = js_or (opt_member (member e ''location'') ''file'') (JStr ''unknown''),
       loc_line = js_or (opt_member (member e ''location'') ''line'') (JInt 0),
       loc_column = js_or (opt_member (member e ''location'') ''column'') (JInt 0) \<rparr>"

definition testStep_of :: "json \<Rightarrow> TestStep" where
  "testStep_of action =
     \<lparr> title = js_or (member action ''apiName'')
                 (js_or (member action ''method'') (JStr ''Unknown step'')) \<rparr>"

text \<open>
  The inner loop \<open>for (const x of list) acc.push(make(x))\<close>: reading a member of a
  \<open>null\<close> element throws.
\<close>

fun push_all :: "(json \<Rightarrow> 'a) \<Rightarrow> json list \<Rightarrow> 'a list \<Rightarrow> 'a list attempt" where
  "push_all mk [] acc = Completed acc"
| "push_all mk (x # xs) acc =
     (if x = JNull then Thrown acc else push_all mk xs (acc @ [mk x]))"

text \<open>
  The body of the loop over the archive's entries, for the member \<open>key\<close> of the trace
  data (\<open>errors\<close> or \<open>actions\<close>): an entry with another name is passed over; content
  that does not parse, \<open>null\<close> content and a truthy member that is not iterable throw.
\<close>

definition records_of_entry :: "string \<Rightarrow> (json \<Rightarrow> 'a) \<Rightarrow> ZipEntry \<Rightarrow> 'a list \<Rightarrow> 'a list attempt" where
  "records_of_entry key mk entry acc =
     (if is_structured entry then
        (case content entry of
           None \<Rightarrow> Thrown acc
         | Some traceData \<Rightarrow>
             if traceData = JNull then Thrown acc
             else (case member traceData key of
                     None \<Rightarrow> Completed acc
                   | Some listed \<Rightarrow>
                       if truthy listed then
                         (case iterate listed of
                            None \<Rightarrow> Thrown acc
                          | Some xs \<Rightarrow> push_all mk xs acc)
                       else Completed acc))
      else Completed acc)"

fun records_of_entries :: "string \<Rightarrow> (json \<Rightarrow> 'a) \<Rightarrow> ZipEntry list \<Rightarrow> 'a list \<Rightarrow> 'a list attempt" where
  "records_of_entries key mk [] acc = Completed acc"
| "records_of_entries key mk (entry # entries) acc =
     (case records_of_entry key mk entry acc of
        Thrown acc' \<Rightarrow> Thrown acc'
      | Completed acc' \<Rightarrow> records_of_entries key mk entries acc')"

text \<open>
  \<open>extractErrorsFromTrace\<close> and \<open>extractStepsFromTrace\<close>: one \<open>try\<close> around the
  opening of the archive and the whole loop; the \<open>catch\<close> logs, and the array is
  returned as it stands.
\<close>

definition extractErrorsFromTrace :: "FileSystem \<Rightarrow> string \<Rightarrow> PlaywrightError list" where
  "extractErrorsFromTrace fs traceFilePath =
     (if endsWith traceFilePath ''.zip'' then
        (case zipEntries fs traceFilePath of
           None \<Rightarrow> []
         | Some entries \<Rightarrow> settle (records_of_entries ''errors'' playwrightError_of entries []))
      else [])"

definition extractStepsFromTrace :: "FileSystem \<Rightarrow> string \<Rightarrow> TestStep list" where
  "extractStepsFromTrace fs traceFilePath =
     (if endsWith traceFilePath ''.zip'' then
        (case zipEntries fs traceFilePath of
           None \<Rightarrow> []
         | Some entries \<Rightarrow> settle (records_of_entries ''actions'' testStep_of entries []))
      else [])"

definition collectErrors :: "FileSystem \<Rightarrow> string \<Rightarrow> PlaywrightError list" where
  "collectErrors fs testDir =
     (case findTraceFile fs testDir of
        None \<Rightarrow> []
      | Some found \<Rightarrow> extractErrorsFromTrace fs found)"

definition collectTestSteps :: "FileSystem \<Rightarrow> string \<Rightarrow> TestStep list" where
  "collectTestSteps fs testDir =
     (case findTraceFile fs testDir of
        None \<Rightarrow> []
      | Some found \<Rightarrow> extractStepsFromTrace fs found)"

subsection \<open>From directories to a report\<close>

text \<open>
  The \<open>testName\<close> member of \<open>parseTestDirectoryName\<close>:
  \<open>parts.slice(0, -4).join('-') || dirName\<close>. The browser, retry and file members
  are not carried into the report.
\<close>

definition parseTestDirectoryName :: "string \<Rightarrow> string" where
  "parseTestDirectoryName dirName =
     (let parts = split_on (CHR ''-'') dirName;
          joined = join_with ''-'' (take (length parts - 4) parts)
      in if joined = [] then dirName else joined)"

text \<open>
  \<open>processTestDirectory\<close>: \<open>None\<close> when one of the calls throws (the caller skips
  the directory).
\<close>

definition processTestDirectory :: "FileSystem \<Rightarrow> string \<Rightarrow> PlaywrightTestResult option" where
  "processTestDirectory fs testDir =
     (case determineTestStatus fs testDir of
        None \<Rightarrow> None
      | Some st \<Rightarrow>
          (case collectScreenshots fs testDir of
             None \<Rightarrow> None
           | Some shots \<Rightarrow>
               (case collectVideos fs testDir of
                  None \<Rightarrow> None
                | Some vids \<Rightarrow>
                    Some \<lparr> testTitle = parseTestDirectoryName (path_basename fs testDir),
                           status = st,
                           duration = 0,
                           screenshots = shots,
                           videos = vids,
                           errors = collectErrors fs testDir,
                           steps = collectTestSteps fs testDir,
                           traceFile = findTraceFile fs testDir \<rparr>)))"

fun keep_directories :: "FileSystem \<Rightarrow> string \<Rightarrow> string list \<Rightarrow> string list option" where
  "keep_directories fs base [] = Some []"
| "keep_directories fs base (item # items) =
     (case statSync fs (path_join fs base item) of
        None \<Rightarrow> None
      | Some st \<Rightarrow>
          (case keep_directories fs base items of
             None \<Rightarrow> None
           | Some rest \<Rightarrow>
               Some (if isDirectory st then path_join fs base item # rest else rest)))"

definition findTestDirectories :: "FileSystem \<Rightarrow> string \<Rightarrow> string list option" where
  "findTestDirectories fs testResultsPath =
     (if \<not> existsSync fs testResultsPath then Some []
      else (case readdirSync fs testResultsPath of
              None \<Rightarrow> None
            | Some items \<Rightarrow> keep_directories fs testResultsPath items))"

fun process_directories :: "FileSystem \<Rightarrow> string list \<Rightarrow> PlaywrightTestResult list" where
  "process_directories fs [] = []"
| "process_directories fs (testDir # testDirs) =
     (case processTestDirectory fs testDir of
        None \<Rightarrow> process_directories fs testDirs
      | Some result \<Rightarrow> result # process_directories fs testDirs)"

definition processTestFiles :: "FileSystem \<Rightarrow> string \<Rightarrow> PlaywrightTestResult list option" where
  "processTestFiles fs testResultsPath =
     map_option (process_directories fs) (findTestDirectories fs testResultsPath)"

text \<open>
  What \<open>processTestResults\<close> takes from the clock and from the report manager: the
  instants it reads, the unique id, the number \<open>getNextReportNumber\<close> returned and the
  captured intent.
\<close>

record RunContext =
  ctx_startedAt :: date
  ctx_startTime :: date
  ctx_endTime :: date
  ctx_uniqueId :: string
  ctx_reportNumber :: json
  ctx_intent :: TestExecutionIntent

text \<open>
  \<open>processTestResults\<close> from the point where \<open>results\<close> is in hand. The run record
  \<open>collectTestRun\<close> builds never has a developer, a branch or an environment, so the
  defaults apply.
\<close>

definition assemble :: "RunContext \<Rightarrow> PlaywrightTestResult list \<Rightarrow> ProcessedTestReport" where
  "assemble ctx rs =
     (let enhancedResults = map (enhance (ctx_intent ctx)) rs
      in \<lparr> execution =
             \<lparr> reportNumber = ctx_reportNumber ctx,
               uniqueId = ctx_uniqueId ctx,
               developer = ''unknown'',
               timestamp = ctx_startedAt ctx,
               branch = None,
               environment = ''local'',
               exec_duration = ctx_endTime ctx - ctx_startTime ctx,
               intent = ctx_intent ctx \<rparr>,
           results = enhancedResults,
           summary = calculateEnhancedSummary enhancedResults \<rparr>)"

definition processTestResults :: "FileSystem \<Rightarrow> string \<Rightarrow> RunContext \<Rightarrow> ProcessedTestReport option" where
  "processTestResults fs testResultsPath ctx =
     map_option (assemble ctx) (processTestFiles fs testResultsPath)"

section \<open>Report manager: the report counter\<close>

text \<open>
  The counter file: missing, or holding text that \<open>JSON.parse\<close> turns into a value
  (\<open>None\<close> when it throws). A value written with \<open>JSON.stringify\<close> is read back as
  \<open>reread\<close> gives it. The environment says whether \<open>readFileSync\<close> and \<open>writeFileSync\<close>
  succeed and what \<open>Date.now()\<close> returns; a write that fails leaves the file as it was.
  \<open>numberToString\<close> is the engine's \<open>Number.prototype.toString\<close>.
\<close>

datatype CounterFile = Missing | Stored "json option"

record CounterEnv =
  canRead :: bool
  canWrite :: bool
  clock :: int
  numberToString :: "jnum \<Rightarrow> string"

text \<open>
  The \<open>try\<close> block of \<open>getNextReportNumber\<close>: the returned number and the file
  afterwards, \<open>None\<close> when an exception leaves the block. The method is class code,
  hence strict: assigning a member of a primitive throws; an array takes the
  assignment and \<open>JSON.stringify\<close> drops it.
\<close>

definition counter_try :: "CounterEnv \<Rightarrow> CounterFile \<Rightarrow> (json \<times> CounterFile) option" where
  "counter_try env file =
     (case file of
        Stored parsed \<Rightarrow>
          if \<not> canRead env then None
          else (case parsed of
                  None \<Rightarrow> None
                | Some data \<Rightarrow>
                    if data = JNull then None
                    else
                      (let nextNumber = js_plus_one (numberToString env)
                                          (js_or (member data ''lastNumber'') (JInt 0))
                       in (case data of
                             JObj kvs \<Rightarrow>
                               if canWrite env
                               then Some (nextNumber,
                                          Stored (Some (reread (JObj (set_member kvs ''lastNumber'' nextNumber)))))
                               else None
                           | JArr xs \<Rightarrow>
                               if canWrite env then Some (nextNumber, Stored (Some (reread (JArr xs))))
                               else None
                           | _ \<Rightarrow> None)))
      | Missing \<Rightarrow>
          if canWrite env
          then Some (JInt 1, Stored (Some (JObj [(''lastNumber'', JInt 1)])))
          else None)"

definition getNextReportNumber :: "CounterEnv \<Rightarrow> CounterFile \<Rightarrow> json \<times> CounterFile" where
  "getNextReportNumber env file =
     (case counter_try env file of
        Some r \<Rightarrow> r
      | None \<Rightarrow> (JInt (clock env), file))"

text \<open>The \<open>lastNumber\<close> member of the object the counter file holds, if any.\<close>

fun stored_lastNumber :: "CounterFile \<Rightarrow> json option" where
  "stored_lastNumber (Stored (Some (JObj kvs))) = map_of kvs ''lastNumber''"
| "stored_lastNumber (Stored other) = None"
| "stored_lastNumber Missing = None"

section \<open>Storage adapters: the reports index\<close>

text \<open>
  The entry the GitHub adapter and the GitHub uploader write (\<open>reportSummary\<close> with
  members id, timestamp, developer, branch, summary, url) and the one the SharePoint
  adapter writes (id, timestamp, developer, branch, environment, totalTests, passed,
  failed, duration). The textual form of an instant (\<open>toISOString\<close>) is not modelled.
\<close>

record GitHubEntry =
  gh_id :: string
  gh_timestamp :: date
  gh_developer :: string
  gh_branch :: "string option"
  gh_summary :: TestSummary
  gh_url :: string

record SharePointEntry =
  sp_id :: string
  sp_timestamp :: date
  sp_developer :: string
  sp_branch :: "string option"
  sp_environment :: string
  sp_totalTests :: nat
  sp_passed :: nat
  sp_failed :: nat
  sp_duration :: int

text \<open>
  The index document \<open>reports/index.json\<close>: the entries, newest first, and the
  \<open>lastUpdated\<close> stamp (absent in an index the SharePoint adapter starts from scratch).
\<close>

record 'e ReportsIndex =
  reports :: "'e list"
  lastUpdated :: "date option"

text \<open>
  What reading the stored index gives: a parsed document with its \<open>reports\<close>
  array; a 404 answer (no index yet); any other failure of the request, or content
  that does not parse; content that parses to a value without a \<open>reports\<close> array,
  on which \<open>unshift\<close> and \<open>filter\<close> throw.
\<close>

datatype 'e fetched = Fetched "'e ReportsIndex" | NotFound | FetchFailed | NoReportsArray

definition github_reportSummary :: "ProcessedTestReport \<Rightarrow> GitHubEntry" where
  "github_reportSummary report =
     \<lparr> gh_id = uniqueId (execution report),
       gh_timestamp = timestamp (execution report),
       gh_developer = developer (execution report),
       gh_branch = branch (execution report),
       gh_summary = summary report,
       gh_url = ''reports/'' @ uniqueId (execution report) @ ''/report.json'' \<rparr>"

definition sharepoint_reportSummary :: "ProcessedTestReport \<Rightarrow> SharePointEntry" where
  "sharepoint_reportSummary report =
     \<lparr> sp_id = uniqueId (execution report),
       sp_timestamp = timestamp (execution report),
       sp_developer = developer (execution report),
       sp_branch = branch (execution report),
       sp_environment = environment (execution report),
       sp_totalTests = total (summary report),
       sp_passed = passed (summary report),
       sp_failed = failed (summary report),
       sp_duration = exec_duration (execution report) \<rparr>"

text \<open>
  The steps \<open>GitHubStorageAdapter.updateReportsIndex\<close> and
  \<open>GitHubUploader.updateReportsIndex\<close> share once the index is in hand:
  \<open>unshift\<close> the new entry, stamp \<open>lastUpdated\<close>, and \<open>slice(0, 100)\<close> when there
  are more than 100 entries.
\<close>

definition github_merge :: "date \<Rightarrow> GitHubEntry ReportsIndex \<Rightarrow> ProcessedTestReport \<Rightarrow> GitHubEntry ReportsIndex" where
  "github_merge now index report =
     (let unshifted = github_reportSummary report # reports index
      in \<lparr> reports = (if length unshifted > 100 then take 100 unshifted else unshifted),
           lastUpdated = Some now \<rparr>)"

text \<open>
  \<open>GitHubStorageAdapter.updateReportsIndex\<close>: a 404 keeps the fresh index
  \<open>{reports: [], lastUpdated: now}\<close>; any other failure is rethrown to the outer
  \<open>catch\<close>, which logs. The result is the document handed to
  \<open>createOrUpdateFile\<close>, or \<open>None\<close> when the method ends in its \<open>catch\<close>
  before that call.
\<close>

definition GitHubStorageAdapter_updateReportsIndex ::
  "date \<Rightarrow> GitHubEntry fetched \<Rightarrow> ProcessedTestReport \<Rightarrow> GitHubEntry ReportsIndex option" where
  "GitHubStorageAdapter_updateReportsIndex now got report =
     (case got of
        Fetched index \<Rightarrow> Some (github_merge now index report)
      | NotFound \<Rightarrow> Some (github_merge now \<lparr> reports = [], lastUpdated = Some now \<rparr> report)
      | FetchFailed \<Rightarrow> None
      | NoReportsArray \<Rightarrow> None)"

text \<open>
  \<open>GitHubUploader.updateReportsIndex\<close>: the read is not guarded, so a missing index
  is a failure like any other and nothing is written.
\<close>

definition GitHubUploader_updateReportsIndex ::
  "date \<Rightarrow> GitHubEntry fetched \<Rightarrow> ProcessedTestReport \<Rightarrow> GitHubEntry ReportsIndex option" where
  "GitHubUploader_updateReportsIndex now got report =
     (case got of
        Fetched index \<Rightarrow> Some (github_merge now index report)
      | NotFound \<Rightarrow> None
      | FetchFailed \<Rightarrow> None
      | NoReportsArray \<Rightarrow> None)"

text \<open>
  \<open>SharePointStorageAdapter.updateReportsIndex\<close>: \<open>downloadFile\<close> answers
  \<open>null\<close> on every failure and the parse has its own \<open>try\<close> with an empty
  handler, so every failure of the read starts from \<open>{reports: []}\<close>.
  Then: filter out the entries with the report's id, \<open>unshift\<close>, \<open>slice(0, 100)\<close>.
  The other members of the stored document are kept.
\<close>

definition sharepoint_merge :: "SharePointEntry ReportsIndex \<Rightarrow> ProcessedTestReport \<Rightarrow> SharePointEntry ReportsIndex" where
  "sharepoint_merge existingIndex report =
     (let filtered = filter (\<lambda>r. sp_id r \<noteq> uniqueId (execution report)) (reports existingIndex);
          unshifted = sharepoint_reportSummary report # filtered
      in existingIndex \<lparr> reports := take 100 unshifted \<rparr>)"

definition SharePointStorageAdapter_updateReportsIndex ::
  "SharePointEntry fetched \<Rightarrow> ProcessedTestReport \<Rightarrow> SharePointEntry ReportsIndex option" where
  "SharePointStorageAdapter_updateReportsIndex got report =
     (case got of
        Fetched existingIndex \<Rightarrow> Some (sharepoint_merge existingIndex report)
      | NotFound \<Rightarrow> Some (sharepoint_merge \<lparr> reports = [], lastUpdated = None \<rparr> report)
      | FetchFailed \<Rightarrow> Some (sharepoint_merge \<lparr> reports = [], lastUpdated = None \<rparr> report)
      | NoReportsArray \<Rightarrow> None)"

text \<open>
  A run of uploads against one backend whose reads and writes succeed. The store holds
  the index document, or nothing before the first write. An upload reads the store,
  applies the adapter's operation and stores the document it produced; when the
  operation writes nothing the store stays as it was.
\<close>

definition read_store :: "'e ReportsIndex option \<Rightarrow> 'e fetched" where
  "read_store store = (case store of None \<Rightarrow> NotFound | Some index \<Rightarrow> Fetched index)"

definition write_back :: "'e ReportsIndex option \<Rightarrow> 'e ReportsIndex option \<Rightarrow> 'e ReportsIndex option" where
  "write_back store written = (case written of None \<Rightarrow> store | Some index \<Rightarrow> Some index)"

definition github_adapter_upload ::
  "GitHubEntry ReportsIndex option \<Rightarrow> date \<times> ProcessedTestReport \<Rightarrow> GitHubEntry ReportsIndex option" where
  "github_adapter_upload store u =
     write_back store (GitHubStorageAdapter_updateReportsIndex (fst u) (read_store store) (snd u))"

definition github_uploader_upload ::
  "GitHubEntry ReportsIndex option \<Rightarrow> date \<times> ProcessedTestReport \<Rightarrow> GitHubEntry ReportsIndex option" where
  "github_uploader_upload store u =
     write_back store (GitHubUploader_updateReportsIndex (fst u) (read_store store) (snd u))"

definition sharepoint_upload ::
  "SharePointEntry ReportsIndex option \<Rightarrow> ProcessedTestReport \<Rightarrow> SharePointEntry ReportsIndex option" where
  "sharepoint_upload store report =
     write_back store (SharePointStorageAdapter_updateReportsIndex (read_store store) report)"

definition index_size :: "'e ReportsIndex option \<Rightarrow> nat" where
  "index_size store = (case store of None \<Rightarrow> 0 | Some index \<Rightarrow> length (reports index))"

section \<open>Example inputs\<close>

text \<open>
  \<open>path.join\<close> and \<open>path.basename\<close> as POSIX Node computes them for a normalised
  relative directory path without a trailing separator and a plain file name, which
  is what the examples pass.
\<close>

definition posix_join :: "string \<Rightarrow> string \<Rightarrow> string" where
  "posix_join dir name = dir @ ''/'' @ name"

definition posix_basename :: "string \<Rightarrow> string" where
  "posix_basename p = rev (takeWhile (\<lambda>c. c \<noteq> CHR ''/'') (rev p))"

text \<open>
  A results directory with three test directories and a loose file. The first and the
  third have a screenshot and no trace; the second has a trace archive whose first
  structured entry does not parse and whose second one lists an error and an action.
\<close>

definition example_entries :: "ZipEntry list" where
  "example_entries =
     [ \<lparr> entryName = ''0-trace.json'', content = None \<rparr>,
       \<lparr> entryName = ''trace.trace'',
         content = Some (JObj [(''errors'', JArr [JObj [(''message'', JStr ''boom'')]]),
                               (''actions'', JArr [JObj [(''apiName'', JStr ''page.click'')]])]) \<rparr> ]"

definition example_fs :: FileSystem where
  "example_fs =
     \<lparr> globby = (\<lambda>pattern cwd.
         if cwd = ''out/shows-error-page'' \<and> pattern = ''*.png'' then [''home.png'']
         else if cwd = ''out/login'' \<and> pattern = ''*.png'' then [''done.png'']
         else if cwd = ''out/checkout'' \<and> pattern = ''trace.zip'' then [''trace.zip'']
         else if cwd = ''out/checkout'' \<and> pattern = ''*.zip'' then [''trace.zip'']
         else []),
       zipEntries = (\<lambda>p. if p = ''out/checkout/trace.zip'' then Some example_entries else None),
       existsSync = (\<lambda>p. p = ''out''),
       readdirSync = (\<lambda>p. if p = ''out''
                           then Some [''shows-error-page'', ''checkout'', ''login'', ''results.json'']
                           else None),
       statSync = (\<lambda>p.
         if p = ''out/shows-error-page'' \<or> p = ''out/checkout'' \<or> p = ''out/login''
         then Some \<lparr> isDirectory = True, mtimeMs = 0, st_size = 0 \<rparr>
         else if p = ''out/results.json'' \<or> p = ''out/shows-error-page/home.png''
                 \<or> p = ''out/login/done.png''
         then Some \<lparr> isDirectory = False, mtimeMs = 5, st_size = 10 \<rparr>
         else None),
       path_join = posix_join,
       path_basename = posix_basename \<rparr>"

text \<open>The same archive without its unparsable entry.\<close>

definition example_fs_clean :: FileSystem where
  "example_fs_clean = example_fs \<lparr> zipEntries := (\<lambda>p. Some (tl example_entries)) \<rparr>"

definition example_intent :: TestExecutionIntent where
  "example_intent =
     \<lparr> purpose = Debugging, description = None, expectFailures = True,
       targetTests = Some [''checkout''], goals = [], intent_context = None \<rparr>"

definition example_context :: RunContext where
  "example_context =
     \<lparr> ctx_startedAt = 1000, ctx_startTime = 1000, ctx_endTime = 1500,
       ctx_uniqueId = ''R1'', ctx_reportNumber = JInt 7, ctx_intent = example_intent \<rparr>"

definition example_result :: "string \<Rightarrow> TestStatus \<Rightarrow> PlaywrightTestResult" where
  "example_result t s =
     \<lparr> testTitle = t, status = s, duration = 0, screenshots = [], videos = [],
       errors = [], steps = [], traceFile = None \<rparr>"

definition example_report :: ProcessedTestReport where
  "example_report =
     assemble example_context [example_result ''checkout applies discount'' TimedOut]"

text \<open>Stored indexes that already hold 150 entries.\<close>

definition example_long_github_index :: "GitHubEntry ReportsIndex option" where
  "example_long_github_index =
     Some \<lparr> reports = replicate 150 (github_reportSummary example_report), lastUpdated = None \<rparr>"

definition example_long_sharepoint_index :: "SharePointEntry ReportsIndex option" where
  "example_long_sharepoint_index =
     Some \<lparr> reports = replicate 150 (sharepoint_reportSummary example_report), lastUpdated = None \<rparr>"

text \<open>
  An environment in which the counter file can be read and written. Its printer gives
  the decimal digits of an integer value, as \<open>Number.prototype.toString\<close> does below
  \<open>10^21\<close>; the examples print no other number.
\<close>

fun digits_of :: "nat \<Rightarrow> string" where
  "digits_of n =
     (if n < 10 then [char_of (48 + n)]
      else digits_of (n div 10) @ [char_of (48 + n mod 10)])"

definition show_int :: "int \<Rightarrow> string" where
  "show_int i = (if i < 0 then CHR ''-'' # digits_of (nat (- i)) else digits_of (nat i))"

definition example_printer :: "jnum \<Rightarrow> string" where
  "example_printer x =
     (case x of Fin q \<Rightarrow> show_int \<lfloor>q\<rfloor> | PInf \<Rightarrow> ''Infinity'' | NInf \<Rightarrow> ''-Infinity'')"

definition example_env :: CounterEnv where
  "example_env =
     \<lparr> canRead = True, canWrite = True, clock = 1700000000000,
       numberToString = example_printer \<rparr>"

section \<open>Properties of the report summary\<close>

lemma enhance_status_normal:
  "r_status (enhance i r) = Passed \<or> r_status (enhance i r) = Failed \<or> r_status (enhance i r) = Skipped"
  by (cases "status r") (simp_all add: enhance_def Let_def)

lemma three_way_partition:
  "\<forall>x \<in> set xs. f x = Passed \<or> f x = Failed \<or> f x = Skipped \<Longrightarrow>
   length (filter (\<lambda>x. f x = Passed) xs) + length (filter (\<lambda>x. f x = Failed) xs)
     + length (filter (\<lambda>x. f x = Skipped) xs) = length xs"
  by (induction xs) auto

lemma summary_assemble:
  "summary (assemble ctx rs) = calculateEnhancedSummary (map (enhance (ctx_intent ctx)) rs)"
  by (simp add: assemble_def Let_def)

lemma results_assemble:
  "results (assemble ctx rs) = map (enhance (ctx_intent ctx)) rs"
  by (simp add: assemble_def Let_def)

text \<open>
  C2. Whatever list of results the report is assembled from, the passed, failed and
  skipped counts of its summary add up to the total, and the total is the number of
  results in the report.
\<close>

theorem summary_counts_partition_total:
  "passed (summary (assemble ctx rs)) + failed (summary (assemble ctx rs))
     + skipped (summary (assemble ctx rs)) = total (summary (assemble ctx rs))
   \<and> total (summary (assemble ctx rs)) = length (results (assemble ctx rs))"
proof -
  let ?es = "map (enhance (ctx_intent ctx)) rs"
  have "\<forall>e \<in> set ?es. r_status e = Passed \<or> r_status e = Failed \<or> r_status e = Skipped"
    using enhance_status_normal by auto
  then have "length (filter (\<lambda>e. r_status e = Passed) ?es)
      + length (filter (\<lambda>e. r_status e = Failed) ?es)
      + length (filter (\<lambda>e. r_status e = Skipped) ?es) = length ?es"
    by (rule three_way_partition)
  then show ?thesis
    by (simp add: summary_assemble results_assemble calculateEnhancedSummary_def)
qed

lemma expected_two_valued:
  "determineExpectedOutcome r i = Pass \<or> determineExpectedOutcome r i = Fail"
  by (simp add: determineExpectedOutcome_def split: option.split)

lemma actual_fail_iff_failed:
  "actualOutcome (enhance i r) = Fail \<longleftrightarrow> r_status (enhance i r) = Failed"
  by (cases "status r") (simp_all add: enhance_def Let_def)

lemma actual_pass_iff_passed:
  "actualOutcome (enhance i r) = Pass \<longleftrightarrow> r_status (enhance i r) = Passed"
  by (cases "status r") (simp_all add: enhance_def Let_def)

lemma expected_of_enhance:
  "expectedOutcome (enhance i r) = Pass \<or> expectedOutcome (enhance i r) = Fail"
  using expected_two_valued [of r i] by (simp add: enhance_def Let_def)

lemma split_by_expectation:
  "\<forall>x \<in> set xs. (e x = Pass \<or> e x = Fail) \<and> (a x = v \<longleftrightarrow> s x = t) \<Longrightarrow>
   length (filter (\<lambda>x. e x = Fail \<and> a x = v) xs) + length (filter (\<lambda>x. e x = Pass \<and> a x = v) xs)
     = length (filter (\<lambda>x. s x = t) xs)"
  by (induction xs) auto

text \<open>
  C3. In the summary of every assembled report the expected and the unexpected
  failures add up to the failed count, and the expected and the unexpected passes add
  up to the passed count: a result's actual outcome is \<open>Fail\<close> exactly when its
  normalised status is \<open>Failed\<close> and \<open>Pass\<close> exactly when it is \<open>Passed\<close>, and
  the expected outcome is always one of \<open>Pass\<close> and \<open>Fail\<close>.
\<close>

theorem summary_expectation_split:
  "expectedFails (summary (assemble ctx rs)) + unexpectedFails (summary (assemble ctx rs))
     = failed (summary (assemble ctx rs))
   \<and> expectedPasses (summary (assemble ctx rs)) + unexpectedPasses (summary (assemble ctx rs))
     = passed (summary (assemble ctx rs))
   \<and> (\<forall>r. (actualOutcome (enhance i r) = Fail) = (r_status (enhance i r) = Failed))
   \<and> (\<forall>r. (actualOutcome (enhance i r) = Pass) = (r_status (enhance i r) = Passed))"
proof -
  let ?es = "map (enhance (ctx_intent ctx)) rs"
  have f: "\<forall>x \<in> set ?es. (expectedOutcome x = Pass \<or> expectedOutcome x = Fail)
             \<and> (actualOutcome x = Fail \<longleftrightarrow> r_status x = Failed)"
    using expected_of_enhance actual_fail_iff_failed by auto
  have p: "\<forall>x \<in> set ?es. (expectedOutcome x = Pass \<or> expectedOutcome x = Fail)
             \<and> (actualOutcome x = Pass \<longleftrightarrow> r_status x = Passed)"
    using expected_of_enhance actual_pass_iff_passed by auto
  have "length (filter (\<lambda>x. expectedOutcome x = Fail \<and> actualOutcome x = Fail) ?es)
      + length (filter (\<lambda>x. expectedOutcome x = Pass \<and> actualOutcome x = Fail) ?es)
      = length (filter (\<lambda>x. r_status x = Failed) ?es)"
    using f by (rule split_by_expectation)
  moreover have "length (filter (\<lambda>x. expectedOutcome x = Fail \<and> actualOutcome x = Pass) ?es)
      + length (filter (\<lambda>x. expectedOutcome x = Pass \<and> actualOutcome x = Pass) ?es)
      = length (filter (\<lambda>x. r_status x = Passed) ?es)"
    using p by (rule split_by_expectation)
  ultimately have counts:
    "expectedFails (summary (assemble ctx rs)) + unexpectedFails (summary (assemble ctx rs))
       = failed (summary (assemble ctx rs))
     \<and> expectedPasses (summary (assemble ctx rs)) + unexpectedPasses (summary (assemble ctx rs))
       = passed (summary (assemble ctx rs))"
    by (simp add: summary_assemble calculateEnhancedSummary_def)
  have fails: "\<forall>r. (actualOutcome (enhance i r) = Fail) = (r_status (enhance i r) = Failed)"
    using actual_fail_iff_failed by blast
  have passes: "\<forall>r. (actualOutcome (enhance i r) = Pass) = (r_status (enhance i r) = Passed)"
    using actual_pass_iff_passed by blast
  from counts fails passes show ?thesis
    by (intro conjI) (erule conjunct1, erule conjunct2, assumption+)
qed

section \<open>Properties of the expectation reconciler and of normalisation\<close>

lemma str_includes_iff: "str_includes s t \<longleftrightarrow> (\<exists>pre post. s = pre @ t @ post)"
  by (simp add: str_includes_def sublist_def)

text \<open>
  C7. The expected outcome is \<open>Fail\<close> if and only if the intent expects failures
  and the result's title contains one of the intent's target tests as a substring;
  in every other case it is \<open>Pass\<close>. An absent target list counts as empty.
\<close>

theorem expected_outcome_fail_iff:
  "(determineExpectedOutcome r i = Fail) =
     (expectFailures i \<and>
      (\<exists>t. t \<in> set (case targetTests i of None \<Rightarrow> [] | Some ts \<Rightarrow> ts)
           \<and> (\<exists>pre post. testTitle r = pre @ t @ post)))
   \<and> (determineExpectedOutcome r i = Pass) =
     (\<not> (expectFailures i \<and>
      (\<exists>t. t \<in> set (case targetTests i of None \<Rightarrow> [] | Some ts \<Rightarrow> ts)
           \<and> (\<exists>pre post. testTitle r = pre @ t @ post))))"
  by (auto simp: determineExpectedOutcome_def list_ex_iff str_includes_iff split: option.split)

lemma expected_outcome_without_targets:
  "targetTests i = None \<or> targetTests i = Some [] \<Longrightarrow> determineExpectedOutcome r i = Pass"
  by (auto simp: determineExpectedOutcome_def)

lemma expected_outcome_example:
  "determineExpectedOutcome (example_result ''checkout should apply discount'' Failed) example_intent = Fail"
  by code_simp

text \<open>
  C8. The results of an assembled report are the raw results mapped through the
  normalisation, and the summary is computed from the mapped list: a raw status
  \<open>TimedOut\<close> or \<open>Interrupted\<close> becomes \<open>Failed\<close>, every other status is kept,
  so every status in the report is \<open>Passed\<close>, \<open>Failed\<close> or \<open>Skipped\<close>.
\<close>

theorem statuses_normalised_before_summary:
  "results (assemble ctx rs) = map (enhance (ctx_intent ctx)) rs
   \<and> summary (assemble ctx rs) = calculateEnhancedSummary (results (assemble ctx rs))
   \<and> (\<forall>r. status r = TimedOut \<or> status r = Interrupted \<longrightarrow> r_status (enhance i r) = Failed)
   \<and> (\<forall>r. status r \<noteq> TimedOut \<and> status r \<noteq> Interrupted \<longrightarrow> r_status (enhance i r) = status r)
   \<and> (\<forall>e \<in> set (results (assemble ctx rs)).
         r_status e = Passed \<or> r_status e = Failed \<or> r_status e = Skipped)"
proof -
  have a: "results (assemble ctx rs) = map (enhance (ctx_intent ctx)) rs"
    by (simp add: assemble_def Let_def)
  have b: "summary (assemble ctx rs) = calculateEnhancedSummary (results (assemble ctx rs))"
    by (simp add: assemble_def Let_def)
  have c: "\<forall>r. status r = TimedOut \<or> status r = Interrupted \<longrightarrow> r_status (enhance i r) = Failed"
    by (simp add: enhance_def Let_def)
  have d: "\<forall>r. status r \<noteq> TimedOut \<and> status r \<noteq> Interrupted \<longrightarrow> r_status (enhance i r) = status r"
    by (simp add: enhance_def Let_def)
  have e: "\<forall>e \<in> set (results (assemble ctx rs)).
         r_status e = Passed \<or> r_status e = Failed \<or> r_status e = Skipped"
    using enhance_status_normal by (auto simp: a)
  from a b c d e show ?thesis by blast
qed

theorem statuses_normalised_witness:
  "status (example_result ''slow test'' TimedOut) = TimedOut
   \<and> r_status (enhance example_intent (example_result ''slow test'' TimedOut)) = Failed
   \<and> status (example_result ''fast test'' Skipped) \<noteq> TimedOut
   \<and> status (example_result ''fast test'' Skipped) \<noteq> Interrupted
   \<and> r_status (enhance example_intent (example_result ''fast test'' Skipped)) = Skipped
   \<and> map r_status (results (assemble example_context
         [example_result ''slow test'' TimedOut, example_result ''stopped test'' Interrupted,
          example_result ''fast test'' Skipped]))
       = [Failed, Failed, Skipped]"
  using statuses_normalised_before_summary
    [of example_context
        "[example_result ''slow test'' TimedOut, example_result ''stopped test'' Interrupted,
          example_result ''fast test'' Skipped]" example_intent]
  by (simp add: example_result_def enhance_def Let_def)

section \<open>Properties of the outcome classifier\<close>

lemma determineTestStatus_two_valued:
  "determineTestStatus fs d = Some s \<Longrightarrow> s = Passed \<or> s = Failed"
  by (auto simp: determineTestStatus_def split: option.splits if_splits)

lemma processTestDirectory_status:
  "processTestDirectory fs d = Some r \<Longrightarrow> status r = Passed \<or> status r = Failed"
  by (auto simp: processTestDirectory_def split: option.splits
      dest: determineTestStatus_two_valued)

lemma process_directories_status:
  "r \<in> set (process_directories fs ds) \<Longrightarrow> status r = Passed \<or> status r = Failed"
proof (induction ds)
  case Nil
  then show ?case by simp
next
  case (Cons d ds)
  then show ?case
    by (auto split: option.splits dest: processTestDirectory_status)
qed

lemma enhance_of_scanned:
  "status r = Passed \<or> status r = Failed \<Longrightarrow>
   r_status (enhance i r) \<noteq> Skipped \<and> actualOutcome (enhance i r) \<noteq> Skip"
  by (auto simp: enhance_def Let_def)

lemma filter_none: "\<forall>x \<in> set xs. \<not> P x \<Longrightarrow> length (filter P xs) = 0"
  by (induction xs) auto

text \<open>
  C10. Whenever \<open>determineTestStatus\<close> returns a status, the status is \<open>Passed\<close> or
  \<open>Failed\<close>, never \<open>Skipped\<close>, \<open>TimedOut\<close> or \<open>Interrupted\<close>. Hence a report
  that \<open>processTestResults\<close> assembles from the scanned directories has a skipped
  count of 0 and no result whose actual outcome is \<open>Skip\<close>.
\<close>

theorem scanned_reports_have_no_skips:
  "(\<forall>s. determineTestStatus fs d = Some s \<longrightarrow> s = Passed \<or> s = Failed)
   \<and> (\<forall>rep. processTestResults fs p ctx = Some rep \<longrightarrow>
         skipped (summary rep) = 0 \<and> (\<forall>e \<in> set (results rep). actualOutcome e \<noteq> Skip))"
proof -
  have one: "\<forall>s. determineTestStatus fs d = Some s \<longrightarrow> s = Passed \<or> s = Failed"
    using determineTestStatus_two_valued by blast
  have two: "skipped (summary rep) = 0 \<and> (\<forall>e \<in> set (results rep). actualOutcome e \<noteq> Skip)"
    if "processTestResults fs p ctx = Some rep" for rep
  proof -
    from that obtain ds where rep: "rep = assemble ctx (process_directories fs ds)"
      by (auto simp: processTestResults_def processTestFiles_def)
    let ?es = "map (enhance (ctx_intent ctx)) (process_directories fs ds)"
    have all: "\<forall>e \<in> set ?es. r_status e \<noteq> Skipped \<and> actualOutcome e \<noteq> Skip"
      using process_directories_status enhance_of_scanned by fastforce
    then have "\<forall>e \<in> set ?es. \<not> (r_status e = Skipped)" by blast
    then have "length (filter (\<lambda>e. r_status e = Skipped) ?es) = 0"
      by (rule filter_none)
    then have "skipped (summary rep) = 0"
      by (simp add: rep summary_assemble calculateEnhancedSummary_def)
    moreover have "\<forall>e \<in> set (results rep). actualOutcome e \<noteq> Skip"
      using all by (simp add: rep results_assemble)
    ultimately show ?thesis by blast
  qed
  from one two show ?thesis by blast
qed

lemma example_scan_returns:
  "processTestResults example_fs ''out'' example_context \<noteq> None"
  by code_simp

lemma example_scan_statuses:
  "map r_status (results (the (processTestResults example_fs ''out'' example_context)))
     = [Failed, Failed, Passed]"
  by code_simp

lemma example_first_status:
  "determineTestStatus example_fs ''out/shows-error-page'' = Some Failed"
  by code_simp

theorem scanned_reports_have_no_skips_witness:
  "determineTestStatus example_fs ''out/shows-error-page'' = Some Failed
   \<and> (\<exists>rep. processTestResults example_fs ''out'' example_context = Some rep
         \<and> map r_status (results rep) = [Failed, Failed, Passed]
         \<and> skipped (summary rep) = 0
         \<and> list_all (\<lambda>e. actualOutcome e \<noteq> Skip) (results rep))"
proof -
  note t = scanned_reports_have_no_skips
    [of example_fs "''out/shows-error-page''" "''out''" example_context]
  obtain rep where r: "processTestResults example_fs ''out'' example_context = Some rep"
    using example_scan_returns by blast
  from t r have k: "skipped (summary rep) = 0 \<and> (\<forall>e \<in> set (results rep). actualOutcome e \<noteq> Skip)"
    by blast
  from k have k1: "skipped (summary rep) = 0"
    by (rule conjunct1)
  from k have k2: "list_all (\<lambda>e. actualOutcome e \<noteq> Skip) (results rep)"
    by (simp add: list_all_iff)
  have m: "map r_status (results rep) = [Failed, Failed, Passed]"
    using example_scan_statuses r by simp
  have "processTestResults example_fs ''out'' example_context = Some rep
         \<and> map r_status (results rep) = [Failed, Failed, Passed]
         \<and> skipped (summary rep) = 0
         \<and> list_all (\<lambda>e. actualOutcome e \<noteq> Skip) (results rep)"
    using r m k1 k2 by (intro conjI)
  then have "\<exists>rep. processTestResults example_fs ''out'' example_context = Some rep
         \<and> map r_status (results rep) = [Failed, Failed, Passed]
         \<and> skipped (summary rep) = 0
         \<and> list_all (\<lambda>e. actualOutcome e \<noteq> Skip) (results rep)"
    by (rule exI)
  with example_first_status show ?thesis
    by (rule conjI)
qed

section \<open>Properties of the reports index\<close>

lemma github_merge_bounded: "length (reports (github_merge now index r)) \<le> 100"
  by (simp add: github_merge_def Let_def)

lemma sharepoint_merge_bounded: "length (reports (sharepoint_merge index r)) \<le> 100"
  by (simp add: sharepoint_merge_def Let_def)

lemma written_github_index_bounded:
  "GitHubStorageAdapter_updateReportsIndex now got r = Some index
     \<or> GitHubUploader_updateReportsIndex now got r = Some index
   \<Longrightarrow> length (reports index) \<le> 100"
  by (auto simp: GitHubStorageAdapter_updateReportsIndex_def GitHubUploader_updateReportsIndex_def
      github_merge_bounded split: fetched.splits)

lemma written_sharepoint_index_bounded:
  "SharePointStorageAdapter_updateReportsIndex got r = Some index \<Longrightarrow> length (reports index) \<le> 100"
  by (auto simp: SharePointStorageAdapter_updateReportsIndex_def
      sharepoint_merge_bounded split: fetched.splits)

lemma github_adapter_upload_bounded: "index_size (github_adapter_upload store u) \<le> 100"
  by (cases store)
     (simp_all add: github_adapter_upload_def write_back_def read_store_def index_size_def
        GitHubStorageAdapter_updateReportsIndex_def github_merge_bounded)

lemma github_uploader_upload_bounded: "index_size (github_uploader_upload store u) \<le> 100"
  by (cases store)
     (simp_all add: github_uploader_upload_def write_back_def read_store_def index_size_def
        GitHubUploader_updateReportsIndex_def github_merge_bounded)

lemma sharepoint_upload_bounded: "index_size (sharepoint_upload store r) \<le> 100"
  by (cases store)
     (simp_all add: sharepoint_upload_def write_back_def read_store_def index_size_def
        SharePointStorageAdapter_updateReportsIndex_def sharepoint_merge_bounded)

lemma foldl_last_step:
  "us \<noteq> [] \<Longrightarrow> foldl f s us = f (foldl f s (butlast us)) (last us)"
  by (cases us rule: rev_cases) simp_all

text \<open>
  C5. From a stored index of any length, after any sequence of one or more uploads the
  index holds at most 100 entries: for the GitHub storage adapter, the GitHub uploader
  and the SharePoint storage adapter.
\<close>

theorem index_never_exceeds_bound:
  "us \<noteq> [] \<Longrightarrow>
   index_size (foldl github_adapter_upload gstore us) \<le> 100
   \<and> index_size (foldl github_uploader_upload gstore us) \<le> 100
   \<and> index_size (foldl sharepoint_upload sstore (map snd us)) \<le> 100"
proof -
  assume ne: "us \<noteq> []"
  then have ne': "map snd us \<noteq> []" by simp
  have a: "index_size (foldl github_adapter_upload gstore us) \<le> 100"
    by (simp only: foldl_last_step [OF ne] github_adapter_upload_bounded)
  have b: "index_size (foldl github_uploader_upload gstore us) \<le> 100"
    by (simp only: foldl_last_step [OF ne] github_uploader_upload_bounded)
  have c: "index_size (foldl sharepoint_upload sstore (map snd us)) \<le> 100"
    by (simp only: foldl_last_step [OF ne'] sharepoint_upload_bounded)
  from a b c show ?thesis by (intro conjI)
qed

theorem index_never_exceeds_bound_witness:
  "index_size example_long_github_index = 150
   \<and> index_size example_long_sharepoint_index = 150
   \<and> index_size (foldl github_adapter_upload example_long_github_index
        [(2000::int, example_report)]) \<le> 100
   \<and> index_size (foldl github_uploader_upload example_long_github_index
        [(2000::int, example_report)]) \<le> 100
   \<and> index_size (foldl sharepoint_upload example_long_sharepoint_index
        (map snd [(2000::int, example_report)])) \<le> 100"
proof -
  have ne: "[(2000::int, example_report)] \<noteq> []" by simp
  have g: "index_size example_long_github_index = 150"
    by (simp add: index_size_def example_long_github_index_def)
  have s: "index_size example_long_sharepoint_index = 150"
    by (simp add: index_size_def example_long_sharepoint_index_def)
  from g s index_never_exceeds_bound
      [OF ne, of example_long_github_index example_long_sharepoint_index]
  show ?thesis by simp
qed

text \<open>
  The SharePoint adapter replaces: when the report's id is already in the index, the
  new index is no longer than the old one, starts with the new entry and holds that
  id once.
\<close>

lemma sharepoint_update_replaces_entry:
  assumes "uniqueId (execution r) \<in> sp_id ` set (reports index)"
  shows "length (reports (sharepoint_merge index r)) \<le> length (reports index)
   \<and> hd (reports (sharepoint_merge index r)) = sharepoint_reportSummary r
   \<and> length (filter (\<lambda>e. sp_id e = uniqueId (execution r)) (reports (sharepoint_merge index r))) = 1"
proof -
  let ?kept = "filter (\<lambda>e. sp_id e \<noteq> uniqueId (execution r)) (reports index)"
  have shape: "reports (sharepoint_merge index r) = sharepoint_reportSummary r # take 99 ?kept"
    by (simp add: sharepoint_merge_def Let_def)
  from assms have "length ?kept < length (reports index)"
    by (auto intro: length_filter_less)
  then have one: "length (reports (sharepoint_merge index r)) \<le> length (reports index)"
    by (simp add: shape)
  have "\<forall>e \<in> set (take 99 ?kept). \<not> sp_id e = uniqueId (execution r)"
    by (auto dest: in_set_takeD)
  then have "length (filter (\<lambda>e. sp_id e = uniqueId (execution r)) (take 99 ?kept)) = 0"
    by (rule filter_none)
  then have three: "length (filter (\<lambda>e. sp_id e = uniqueId (execution r))
                      (reports (sharepoint_merge index r))) = 1"
    by (simp add: shape sharepoint_reportSummary_def)
  from one three show ?thesis by (simp add: shape)
qed

text \<open>
  C1. The claim: every adapter removes the entries with the new entry's id before it
  prepends, so a second upload of a report replaces its entry. The GitHub storage
  adapter does not: uploading the report whose entry is the only one in the index
  writes an index with two entries for that report.
\<close>

theorem github_adapter_duplicates_reuploaded_report:
  "GitHubStorageAdapter_updateReportsIndex 2000
     (Fetched \<lparr> reports = [github_reportSummary example_report], lastUpdated = Some 1000 \<rparr>)
     example_report
   = Some \<lparr> reports = [github_reportSummary example_report, github_reportSummary example_report],
            lastUpdated = Some 2000 \<rparr>
   \<and> gh_id (github_reportSummary example_report) = ''R1''"
  by (simp add: GitHubStorageAdapter_updateReportsIndex_def github_merge_def Let_def
      github_reportSummary_def example_report_def assemble_def example_context_def)

lemma github_uploader_duplicates_reuploaded_report:
  "GitHubUploader_updateReportsIndex 2000
     (Fetched \<lparr> reports = [github_reportSummary example_report], lastUpdated = Some 1000 \<rparr>)
     example_report
   = Some \<lparr> reports = [github_reportSummary example_report, github_reportSummary example_report],
            lastUpdated = Some 2000 \<rparr>"
  by (simp add: GitHubUploader_updateReportsIndex_def github_merge_def Let_def)

section \<open>Properties of the report counter\<close>

subsection \<open>Adding 1 to an integer double\<close>

lemma bit_length_le: "n < 2 ^ k \<Longrightarrow> bit_length n \<le> k"
proof (induction k arbitrary: n)
  case 0
  then show ?case by simp
next
  case (Suc k)
  then have "n div 2 < 2 ^ k" by auto
  with Suc.IH have "bit_length (n div 2) \<le> k" by blast
  then show ?case by (subst bit_length.simps) simp
qed

lemma round_half_even_int: "round_half_even (of_int j) = j"
  by (simp add: round_half_even_def)

text \<open>An integer of magnitude below \<open>2^53\<close> is a double: rounding leaves it alone.\<close>

lemma round_double_small_int:
  assumes "abs m < 2 ^ 53"
  shows "round_double (of_int m) = of_int m"
proof (cases "m = 0")
  case True
  then show ?thesis by (simp add: round_double_def)
next
  case False
  define a where "a = nat (abs m)"
  let ?b = "bit_length a"
  have abs_eq: "abs (of_int m :: real) = of_nat a"
    by (simp add: a_def)
  from assms have "a < 2 ^ 53"
    by (simp add: a_def nat_less_iff)
  then have le: "?b \<le> 53" by (rule bit_length_le)
  from False have pos: "0 < a" by (simp add: a_def)
  then have ge: "1 \<le> ?b" by (subst bit_length.simps) simp
  from pos have one: "(1::real) \<le> of_nat a" by simp
  have bin: "binade (of_nat a) = int ?b - 1"
    unfolding binade_def using one by (simp only: if_True floor_of_nat nat_int)
  define k where "k = 53 - ?b"
  have q: "max (binade (of_nat a) - 52) (- 1074) = - int k"
    using le ge by (simp only: bin k_def)
  have u: "pow2 (- int k) = 1 / 2 ^ k"
    by (simp add: pow2_def)
  have "of_int m / (1 / 2 ^ k) = (of_int (m * 2 ^ k) :: real)"
    by simp
  then have r: "round_half_even (of_int m / (1 / 2 ^ k)) = m * 2 ^ k"
    by (simp only: round_half_even_int)
  have nz: "(of_int m :: real) \<noteq> 0" using False by simp
  have "round_double (of_int m) = of_int (m * 2 ^ k) * (1 / 2 ^ k)"
    unfolding round_double_def Let_def abs_eq q u r using nz by (simp only: if_False)
  also have "\<dots> = of_int m" by simp
  finally show ?thesis .
qed

lemma round_double_two_53: "round_double 9007199254740992 = 9007199254740992"
  by (simp add: round_double_def binade_def pow2_def round_half_even_def Let_def)

lemma round_double_upto_two_53:
  assumes "- (2 ^ 53) < m" and "m \<le> 2 ^ 53"
  shows "round_double (of_int m) = of_int m"
proof (cases "m = 2 ^ 53")
  case True
  then show ?thesis using round_double_two_53 by simp
next
  case False
  with assms have "abs m < 2 ^ 53" by simp
  then show ?thesis by (rule round_double_small_int)
qed

lemma add_one_int:
  assumes "- (2 ^ 53) \<le> n" and "n < 2 ^ 53"
  shows "add_one (Fin (of_int n)) = Fin (of_int (n + 1))"
proof -
  from assms have "- (2 ^ 53) < n + 1" and "n + 1 \<le> 2 ^ 53" by simp_all
  then have r: "round_double (of_int (n + 1)) = of_int (n + 1)"
    by (rule round_double_upto_two_53)
  from assms have up: "(of_int (n + 1) :: real) \<le> 2 ^ 53"
    by simp
  from assms have lo: "- (2 ^ 53) \<le> (of_int (n + 1) :: real)"
    by simp
  have big: "(2::real) ^ 53 < 2 ^ 1024"
    by simp
  from up big have "\<not> (2 ^ 1024 \<le> (of_int (n + 1) :: real))"
    by linarith
  moreover from lo big have "\<not> ((of_int (n + 1) :: real) \<le> - (2 ^ 1024))"
    by linarith
  ultimately have range:
    "\<not> (2 ^ 1024 \<le> (of_int (n + 1) :: real)) \<and> \<not> ((of_int (n + 1) :: real) \<le> - (2 ^ 1024))"
    by (rule conjI)
  have "to_number (of_int (n + 1)) = Fin (of_int (n + 1))"
    unfolding to_number_def Let_def r using range by (simp only: if_False)
  then show ?thesis
    by (simp add: add_one_def)
qed

text \<open>At \<open>2^53\<close> the sum is not a double and rounds back: the number stays where it is.\<close>

lemma add_one_at_two_53: "add_one (Fin 9007199254740992) = Fin 9007199254740992"
  by (simp add: add_one_def to_number_def round_double_def binade_def pow2_def
      round_half_even_def Let_def)

subsection \<open>The counter\<close>

lemma map_of_set_member: "map_of (set_member kvs k v) k = Some v"
  by (induction kvs) auto

lemma map_of_reread:
  "map_of (map (\<lambda>kv. (fst kv, reread (snd kv))) kvs) k = map_option reread (map_of kvs k)"
  by (induction kvs) auto

lemma next_of_number:
  assumes "- (2 ^ 53) \<le> n" and "n < 2 ^ 53"
  shows "js_plus_one str (js_or (Some (JInt n)) (JInt 0)) = JInt (n + 1)"
proof -
  have "js_or (Some (JInt n)) (JInt 0) = JInt n"
    by (cases "n = 0") (simp_all add: js_or_def)
  then show ?thesis
    using add_one_int [OF assms] by (simp add: js_plus_one_def)
qed

lemma counter_try_object:
  assumes "canRead env" and "canWrite env"
    and "map_of kvs ''lastNumber'' = Some (JInt n)"
    and "- (2 ^ 53) \<le> n" and "n < 2 ^ 53"
  shows "counter_try env (Stored (Some (JObj kvs)))
     = Some (JInt (n + 1),
             Stored (Some (JObj (map (\<lambda>kv. (fst kv, reread (snd kv)))
                                  (set_member kvs ''lastNumber'' (JInt (n + 1)))))))"
proof -
  have "js_plus_one (numberToString env) (js_or (member (JObj kvs) ''lastNumber'') (JInt 0))
          = JInt (n + 1)"
    using next_of_number [OF assms(4,5)] assms(3) by (simp add: member_def)
  then show ?thesis
    using assms(1,2) by (simp add: counter_try_def Let_def)
qed

lemma getNext_object:
  assumes "canRead env" and "canWrite env"
    and "map_of kvs ''lastNumber'' = Some (JInt n)"
    and "- (2 ^ 53) \<le> n" and "n < 2 ^ 53"
  shows "getNextReportNumber env (Stored (Some (JObj kvs)))
     = (JInt (n + 1),
        Stored (Some (JObj (map (\<lambda>kv. (fst kv, reread (snd kv)))
                             (set_member kvs ''lastNumber'' (JInt (n + 1)))))))"
  by (simp only: getNextReportNumber_def counter_try_object [OF assms] option.case)

lemma persisted_lastNumber:
  "map_of (map (\<lambda>kv. (fst kv, reread (snd kv))) (set_member kvs ''lastNumber'' (JInt m)))
     ''lastNumber'' = Some (JInt m)"
  by (simp add: map_of_reread map_of_set_member)

lemma getNext_missing:
  "canWrite env \<Longrightarrow>
   getNextReportNumber env Missing = (JInt 1, Stored (Some (JObj [(''lastNumber'', JInt 1)])))"
  by (simp add: getNextReportNumber_def counter_try_def)

lemma counter_try_fails:
  "(\<exists>c. f = Stored c \<and> \<not> canRead env) \<or> f = Stored None \<or> \<not> canWrite env \<Longrightarrow>
   counter_try env f = None"
  by (auto simp: counter_try_def Let_def split: CounterFile.splits option.splits json.splits)

text \<open>
  C9, as the code has it. When the counter file holds an object whose \<open>lastNumber\<close>
  is an integer \<open>n\<close> with \<open>-2^53 \<le> n < 2^53\<close> and the file can be read and
  written, \<open>getNextReportNumber\<close> returns \<open>n + 1\<close> and stores it as the new
  \<open>lastNumber\<close>; the next such call returns \<open>n + 2\<close> as long as \<open>n + 1\<close> is below
  \<open>2^53\<close>. When the file is missing and can be written it returns 1 and stores it.
  When the read, the parse or the write fails it returns the clock's value and leaves
  the file alone. It returns in every case: it has no error result.
\<close>

theorem counter_in_safe_range:
  "(canRead env \<and> canWrite env \<and> map_of kvs ''lastNumber'' = Some (JInt n)
      \<and> - (2 ^ 53) \<le> n \<and> n < 2 ^ 53 \<longrightarrow>
      fst (getNextReportNumber env (Stored (Some (JObj kvs)))) = JInt (n + 1)
      \<and> stored_lastNumber (snd (getNextReportNumber env (Stored (Some (JObj kvs)))))
          = Some (JInt (n + 1)))
   \<and> (canRead env \<and> canWrite env \<and> canRead env' \<and> canWrite env'
        \<and> map_of kvs ''lastNumber'' = Some (JInt n)
        \<and> - (2 ^ 53) \<le> n \<and> n + 1 < 2 ^ 53 \<longrightarrow>
      fst (getNextReportNumber env' (snd (getNextReportNumber env (Stored (Some (JObj kvs))))))
        = JInt (n + 2))
   \<and> (canWrite env \<longrightarrow>
      getNextReportNumber env Missing = (JInt 1, Stored (Some (JObj [(''lastNumber'', JInt 1)]))))
   \<and> ((\<exists>c. f = Stored c \<and> \<not> canRead env) \<or> f = Stored None \<or> \<not> canWrite env \<longrightarrow>
      getNextReportNumber env f = (JInt (clock env), f))"
proof -
  let ?kvs' = "map (\<lambda>kv. (fst kv, reread (snd kv))) (set_member kvs ''lastNumber'' (JInt (n + 1)))"
  have a: "fst (getNextReportNumber env (Stored (Some (JObj kvs)))) = JInt (n + 1)
      \<and> stored_lastNumber (snd (getNextReportNumber env (Stored (Some (JObj kvs)))))
          = Some (JInt (n + 1))"
    if h: "canRead env \<and> canWrite env \<and> map_of kvs ''lastNumber'' = Some (JInt n)
      \<and> - (2 ^ 53) \<le> n \<and> n < 2 ^ 53"
  proof -
    from h have "getNextReportNumber env (Stored (Some (JObj kvs)))
        = (JInt (n + 1), Stored (Some (JObj ?kvs')))"
      by (intro getNext_object) simp_all
    then show ?thesis
      by (simp only: fst_conv snd_conv stored_lastNumber.simps persisted_lastNumber simp_thms)
  qed
  have b: "fst (getNextReportNumber env' (snd (getNextReportNumber env (Stored (Some (JObj kvs))))))
        = JInt (n + 2)"
    if h: "canRead env \<and> canWrite env \<and> canRead env' \<and> canWrite env'
        \<and> map_of kvs ''lastNumber'' = Some (JInt n)
        \<and> - (2 ^ 53) \<le> n \<and> n + 1 < 2 ^ 53"
  proof -
    from h have first: "getNextReportNumber env (Stored (Some (JObj kvs)))
        = (JInt (n + 1), Stored (Some (JObj ?kvs')))"
      by (intro getNext_object) simp_all
    from h have "getNextReportNumber env' (Stored (Some (JObj ?kvs')))
        = (JInt (n + 1 + 1),
           Stored (Some (JObj (map (\<lambda>kv. (fst kv, reread (snd kv)))
                                (set_member ?kvs' ''lastNumber'' (JInt (n + 1 + 1)))))))"
      by (intro getNext_object persisted_lastNumber) simp_all
    then have "fst (getNextReportNumber env' (Stored (Some (JObj ?kvs')))) = JInt (n + 1 + 1)"
      by (simp only: fst_conv)
    moreover have "n + 1 + 1 = n + 2" by simp
    ultimately show ?thesis
      by (simp only: first snd_conv)
  qed
  have c: "getNextReportNumber env Missing = (JInt 1, Stored (Some (JObj [(''lastNumber'', JInt 1)])))"
    if "canWrite env"
    using that by (rule getNext_missing)
  have d: "getNextReportNumber env f = (JInt (clock env), f)"
    if "(\<exists>c. f = Stored c \<and> \<not> canRead env) \<or> f = Stored None \<or> \<not> canWrite env"
    using counter_try_fails [OF that] by (simp add: getNextReportNumber_def)
  from impI [OF a] impI [OF b] impI [OF c] impI [OF d] show ?thesis by (intro conjI)
qed

theorem counter_in_safe_range_witness:
  "getNextReportNumber example_env (Stored (Some (JObj [(''lastNumber'', JInt 4)])))
     = (JInt 5, Stored (Some (JObj [(''lastNumber'', JInt 5)])))
   \<and> fst (getNextReportNumber example_env
        (snd (getNextReportNumber example_env (Stored (Some (JObj [(''lastNumber'', JInt 4)]))))))
     = JInt 6
   \<and> getNextReportNumber example_env Missing
     = (JInt 1, Stored (Some (JObj [(''lastNumber'', JInt 1)])))
   \<and> getNextReportNumber example_env (Stored None) = (JInt 1700000000000, Stored None)
   \<and> getNextReportNumber (example_env \<lparr> canWrite := False \<rparr>) Missing
     = (JInt 1700000000000, Missing)"
proof -
  note t = counter_in_safe_range
             [of example_env "[(''lastNumber'', JInt 4)]" 4 example_env "Stored None"]
  note u = counter_in_safe_range
             [of "example_env \<lparr> canWrite := False \<rparr>" "[]" 0 example_env Missing]
  have a1: "fst (getNextReportNumber example_env (Stored (Some (JObj [(''lastNumber'', JInt 4)]))))
     = JInt 5"
    using t [THEN conjunct1] by (simp add: example_env_def)
  have a2: "snd (getNextReportNumber example_env (Stored (Some (JObj [(''lastNumber'', JInt 4)]))))
     = Stored (Some (JObj [(''lastNumber'', JInt 5)]))"
    using a1 by (simp add: getNextReportNumber_def counter_try_def Let_def example_env_def
        member_def js_or_def split: option.splits)
  have a: "getNextReportNumber example_env (Stored (Some (JObj [(''lastNumber'', JInt 4)])))
     = (JInt 5, Stored (Some (JObj [(''lastNumber'', JInt 5)])))"
    using a1 a2 by (simp add: prod_eq_iff)
  have b: "fst (getNextReportNumber example_env
        (snd (getNextReportNumber example_env (Stored (Some (JObj [(''lastNumber'', JInt 4)]))))))
     = JInt 6"
    using t [THEN conjunct2, THEN conjunct1] by (simp add: example_env_def)
  have c: "getNextReportNumber example_env Missing
     = (JInt 1, Stored (Some (JObj [(''lastNumber'', JInt 1)])))"
    using t [THEN conjunct2, THEN conjunct2, THEN conjunct1] by (simp add: example_env_def)
  have d: "getNextReportNumber example_env (Stored None) = (JInt 1700000000000, Stored None)"
    using t [THEN conjunct2, THEN conjunct2, THEN conjunct2] by (simp add: example_env_def)
  have e: "getNextReportNumber (example_env \<lparr> canWrite := False \<rparr>) Missing
     = (JInt 1700000000000, Missing)"
    using u [THEN conjunct2, THEN conjunct2, THEN conjunct2] by (simp add: example_env_def)
  from a b c d e show ?thesis by (intro conjI)
qed

text \<open>
  The statement as first claimed covers every file that exists and parses. A file
  holding the empty array parses, the call succeeds and returns 1, nothing is stored,
  and the next call returns 1 again.
\<close>

lemma add_one_zero: "add_one (Fin 0) = Fin 1"
  using add_one_int [of 0] by simp

theorem counter_array_never_advances:
  "getNextReportNumber example_env (Stored (Some (JArr [])))
     = (JInt 1, Stored (Some (JArr [])))
   \<and> getNextReportNumber example_env
        (snd (getNextReportNumber example_env (Stored (Some (JArr [])))))
     = (JInt 1, Stored (Some (JArr [])))"
  by (simp add: getNextReportNumber_def counter_try_def Let_def example_env_def member_def
      js_or_def js_plus_one_def add_one_zero)

text \<open>
  Two more files that parse: a \<open>lastNumber\<close> that is the string \<open>5\<close> gives the
  string \<open>51\<close>, and at \<open>2^53\<close> the call returns \<open>2^53\<close> and stores it again.
\<close>

lemma counter_string_concatenates:
  "getNextReportNumber example_env (Stored (Some (JObj [(''lastNumber'', JStr ''5'')])))
     = (JStr ''51'', Stored (Some (JObj [(''lastNumber'', JStr ''51'')])))"
  by (simp add: getNextReportNumber_def counter_try_def Let_def example_env_def member_def
      js_or_def js_plus_one_def)

lemma counter_stalls_at_two_53:
  "getNextReportNumber example_env (Stored (Some (JObj [(''lastNumber'', JInt 9007199254740992)])))
     = (JInt 9007199254740992, Stored (Some (JObj [(''lastNumber'', JInt 9007199254740992)])))"
  by (simp add: getNextReportNumber_def counter_try_def Let_def example_env_def member_def
      js_or_def js_plus_one_def add_one_at_two_53)

section \<open>Properties of trace extraction\<close>

lemma records_stop_at_unparsable:
  "is_structured bad \<Longrightarrow> content bad = None \<Longrightarrow>
   settle (records_of_entries key mk (pre @ bad # post) acc)
     = settle (records_of_entries key mk pre acc)"
proof (induction pre arbitrary: acc)
  case Nil
  then show ?case by (simp add: records_of_entry_def settle_def)
next
  case (Cons entry pre)
  then show ?case by (cases "records_of_entry key mk entry acc") simp_all
qed

text \<open>
  C4, as the code has it. Extraction of errors and of steps always returns, and it
  stops at the first structured entry whose content does not parse: the result is
  what the entries before that entry give, and the entries after it are not read.
\<close>

theorem extraction_stops_at_malformed_entry:
  "is_structured bad \<Longrightarrow> content bad = None \<Longrightarrow>
   extractErrorsFromTrace (fs \<lparr> zipEntries := \<lambda>p. Some (pre @ bad # post) \<rparr>) path
     = extractErrorsFromTrace (fs \<lparr> zipEntries := \<lambda>p. Some pre \<rparr>) path
   \<and> extractStepsFromTrace (fs \<lparr> zipEntries := \<lambda>p. Some (pre @ bad # post) \<rparr>) path
     = extractStepsFromTrace (fs \<lparr> zipEntries := \<lambda>p. Some pre \<rparr>) path"
  by (simp add: extractErrorsFromTrace_def extractStepsFromTrace_def records_stop_at_unparsable)

theorem extraction_stops_at_malformed_entry_witness:
  "is_structured (hd example_entries) \<and> content (hd example_entries) = None
   \<and> extractErrorsFromTrace
        (example_fs \<lparr> zipEntries := \<lambda>p. Some (tl example_entries @ hd example_entries # tl example_entries) \<rparr>)
        ''out/checkout/trace.zip''
      = [\<lparr> message = JStr ''boom'', stack = JStr '''', loc_file = JStr ''unknown'',
            loc_line = JInt 0, loc_column = JInt 0 \<rparr>]
   \<and> extractStepsFromTrace
        (example_fs \<lparr> zipEntries := \<lambda>p. Some (tl example_entries @ hd example_entries # tl example_entries) \<rparr>)
        ''out/checkout/trace.zip''
      = [\<lparr> title = JStr ''page.click'' \<rparr>]"
proof -
  have h1: "is_structured (hd example_entries)" by code_simp
  have h2: "content (hd example_entries) = None" by code_simp
  note t = extraction_stops_at_malformed_entry
             [where bad = "hd example_entries" and fs = example_fs
                and pre = "tl example_entries" and post = "tl example_entries"
                and path = "''out/checkout/trace.zip''", OF h1 h2]
  have e: "extractErrorsFromTrace (example_fs \<lparr> zipEntries := \<lambda>p. Some (tl example_entries) \<rparr>)
        ''out/checkout/trace.zip''
      = [\<lparr> message = JStr ''boom'', stack = JStr '''', loc_file = JStr ''unknown'',
            loc_line = JInt 0, loc_column = JInt 0 \<rparr>]"
    by code_simp
  have s: "extractStepsFromTrace (example_fs \<lparr> zipEntries := \<lambda>p. Some (tl example_entries) \<rparr>)
        ''out/checkout/trace.zip''
      = [\<lparr> title = JStr ''page.click'' \<rparr>]"
    by code_simp
  from t e s h1 h2 show ?thesis by simp
qed

text \<open>
  The statement as first claimed, that a malformed entry is skipped and the well-formed
  entries after it are still extracted, fails: an archive whose first entry does not
  parse gives no error and no step, though its second entry holds one of each.
\<close>

theorem malformed_entry_aborts_extraction:
  "extractErrorsFromTrace example_fs ''out/checkout/trace.zip'' = []
   \<and> extractStepsFromTrace example_fs ''out/checkout/trace.zip'' = []
   \<and> extractErrorsFromTrace example_fs_clean ''out/checkout/trace.zip''
      = [\<lparr> message = JStr ''boom'', stack = JStr '''', loc_file = JStr ''unknown'',
            loc_line = JInt 0, loc_column = JInt 0 \<rparr>]
   \<and> extractStepsFromTrace example_fs_clean ''out/checkout/trace.zip''
      = [\<lparr> title = JStr ''page.click'' \<rparr>]"
  by code_simp

section \<open>The order of the classifier's rules\<close>

lemma first_match_None_iff:
  "first_match fs d ps = None \<longleftrightarrow> (\<forall>p \<in> set ps. globby fs p d = [])"
  by (induction ps) (auto split: list.splits)

lemma stat_files_None_iff:
  "stat_files fs d files = None \<longleftrightarrow> (\<exists>f \<in> set files. statSync fs (path_join fs d f) = None)"
  by (induction files) (auto split: option.splits)

lemma stat_files_paths:
  "stat_files fs d files = Some xs \<Longrightarrow> map fst xs = map (path_join fs d) files"
  by (induction files arbitrary: xs) (auto split: option.splits)

lemma collectScreenshots_paths:
  "collectScreenshots fs d = Some shots \<Longrightarrow>
   map sc_filePath shots = map (path_join fs d) (matched_files fs d [''*.png'', ''*.jpg'', ''*.jpeg''])"
proof -
  assume "collectScreenshots fs d = Some shots"
  then obtain xs where xs: "stat_files fs d (matched_files fs d [''*.png'', ''*.jpg'', ''*.jpeg'']) = Some xs"
    and shots: "shots = map (\<lambda>(filePath, st). \<lparr> sc_timestamp = mtimeMs st, sc_filePath = filePath,
                                sc_width = 0, sc_height = 0 \<rparr>) xs"
    by (auto simp: collectScreenshots_def)
  have "map sc_filePath shots = map fst xs"
    by (simp add: shots case_prod_beta)
  with stat_files_paths [OF xs] show ?thesis by simp
qed

lemma collectScreenshots_None_iff:
  "collectScreenshots fs d = None \<longleftrightarrow>
   (\<exists>f \<in> set (matched_files fs d [''*.png'', ''*.jpg'', ''*.jpeg'']). statSync fs (path_join fs d f) = None)"
  by (simp add: collectScreenshots_def stat_files_None_iff)

lemma list_ex_paths:
  "map sc_filePath shots = map (path_join fs d) files \<Longrightarrow>
   list_ex (\<lambda>s. P (sc_filePath s)) shots \<longleftrightarrow> (\<exists>f \<in> set files. P (path_join fs d f))"
proof -
  assume eq: "map sc_filePath shots = map (path_join fs d) files"
  have "list_ex (\<lambda>s. P (sc_filePath s)) shots \<longleftrightarrow> (\<exists>p \<in> set (map sc_filePath shots). P p)"
    by (auto simp: list_ex_iff)
  also have "\<dots> \<longleftrightarrow> (\<exists>p \<in> set (map (path_join fs d) files). P p)"
    by (simp only: eq)
  also have "\<dots> \<longleftrightarrow> (\<exists>f \<in> set files. P (path_join fs d f))"
    by auto
  finally show ?thesis .
qed

text \<open>
  The rules in the order the code applies them: a file matched by one of the trace
  patterns gives \<open>Failed\<close>, whatever the screenshots are; otherwise the word
  \<open>error\<close> or \<open>failure\<close> anywhere in the joined path of a screenshot gives
  \<open>Failed\<close>; otherwise the status is \<open>Passed\<close>. Without a trace, a screenshot
  that \<open>statSync\<close> cannot read makes the call throw.
\<close>

lemma classifier_rule_order:
  "determineTestStatus fs d =
     (if \<exists>pattern \<in> set [''trace.zip'', ''*.trace'', ''*.zip'']. globby fs pattern d \<noteq> []
      then Some Failed
      else if \<exists>f \<in> set (matched_files fs d [''*.png'', ''*.jpg'', ''*.jpeg'']).
                statSync fs (path_join fs d f) = None
      then None
      else if \<exists>f \<in> set (matched_files fs d [''*.png'', ''*.jpg'', ''*.jpeg'']).
                str_includes (path_join fs d f) ''error'' \<or> str_includes (path_join fs d f) ''failure''
      then Some Failed
      else Some Passed)"
proof (cases "findTraceFile fs d")
  case (Some found)
  then have "\<not> (\<forall>p \<in> set [''trace.zip'', ''*.trace'', ''*.zip'']. globby fs p d = [])"
    using first_match_None_iff [of fs d "[''trace.zip'', ''*.trace'', ''*.zip'']"]
    by (simp add: findTraceFile_def)
  then have "\<exists>pattern \<in> set [''trace.zip'', ''*.trace'', ''*.zip'']. globby fs pattern d \<noteq> []"
    by blast
  with Some show ?thesis by (simp only: determineTestStatus_def option.case if_True)
next
  case None
  then have "\<forall>p \<in> set [''trace.zip'', ''*.trace'', ''*.zip'']. globby fs p d = []"
    using first_match_None_iff [of fs d "[''trace.zip'', ''*.trace'', ''*.zip'']"]
    by (simp add: findTraceFile_def)
  then have no: "\<not> (\<exists>pattern \<in> set [''trace.zip'', ''*.trace'', ''*.zip'']. globby fs pattern d \<noteq> [])"
    by blast
  show ?thesis
  proof (cases "collectScreenshots fs d")
    case None
    with collectScreenshots_None_iff [of fs d]
    have "\<exists>f \<in> set (matched_files fs d [''*.png'', ''*.jpg'', ''*.jpeg'']).
                statSync fs (path_join fs d f) = None" by simp
    with no \<open>findTraceFile fs d = None\<close> None show ?thesis
      by (simp only: determineTestStatus_def option.case if_True if_False)
  next
    case (Some shots)
    with collectScreenshots_None_iff [of fs d]
    have ok: "\<not> (\<exists>f \<in> set (matched_files fs d [''*.png'', ''*.jpg'', ''*.jpeg'']).
                statSync fs (path_join fs d f) = None)" by simp
    have "list_ex (\<lambda>s. str_includes (sc_filePath s) ''error'' \<or> str_includes (sc_filePath s) ''failure'') shots
       \<longleftrightarrow> (\<exists>f \<in> set (matched_files fs d [''*.png'', ''*.jpg'', ''*.jpeg'']).
                str_includes (path_join fs d f) ''error'' \<or> str_includes (path_join fs d f) ''failure'')"
      using list_ex_paths [OF collectScreenshots_paths [OF Some],
               of "\<lambda>p. str_includes p ''error'' \<or> str_includes p ''failure''"] .
    with no ok \<open>findTraceFile fs d = None\<close> Some show ?thesis
      by (simp only: determineTestStatus_def option.case if_True if_False)
  qed
qed

lemma classifier_rule_order_examples:
  "determineTestStatus example_fs ''out/checkout'' = Some Failed
   \<and> determineTestStatus example_fs ''out/shows-error-page'' = Some Failed
   \<and> determineTestStatus example_fs ''out/login'' = Some Passed"
proof -
  have a: "determineTestStatus example_fs ''out/checkout'' = Some Failed"
    unfolding classifier_rule_order [of example_fs "''out/checkout''"] by code_simp
  have b: "determineTestStatus example_fs ''out/shows-error-page'' = Some Failed"
    unfolding classifier_rule_order [of example_fs "''out/shows-error-page''"] by code_simp
  have c: "determineTestStatus example_fs ''out/login'' = Some Passed"
    unfolding classifier_rule_order [of example_fs "''out/login''"] by code_simp
  from a b c show ?thesis by (intro conjI)
qed

text \<open>
  C6. The claim: with no trace, the status is \<open>Failed\<close> when the file name of a
  screenshot matches the error or failure heuristic, and \<open>Passed\<close> otherwise. The
  code misses it: it tests the path \<open>join(testDir, file)\<close>, not the file name. A
  directory named \<open>shows-error-page\<close> with no trace and the single screenshot
  \<open>home.png\<close>, whose name holds neither word, is classified \<open>Failed\<close>.
\<close>

theorem directory_name_decides_status:
  "determineTestStatus example_fs ''out/shows-error-page'' = Some Failed
   \<and> findTraceFile example_fs ''out/shows-error-page'' = None
   \<and> matched_files example_fs ''out/shows-error-page'' [''*.png'', ''*.jpg'', ''*.jpeg''] = [''home.png'']
   \<and> map_option (map sc_filePath) (collectScreenshots example_fs ''out/shows-error-page'')
       = Some [''out/shows-error-page/home.png'']
   \<and> \<not> str_includes ''home.png'' ''error''
   \<and> \<not> str_includes ''home.png'' ''failure''"
  by code_simp

end
